theory Spec2Isabelle
  imports Main "HOL-Library.Word"
begin

unbundle bit_operations_syntax

section \<open>Data model (modbus.go, modbustcp.go, ascii.go, protocol.go)\<close>

text \<open>
  Go's \<open>byte\<close>, \<open>uint16\<close> and \<open>uint64\<close> are words of that width; arithmetic
  on them wraps. A Go slice \<open>[]byte\<close> is a list of bytes; the \<open>nil\<close> slice is the
  empty list (both have length 0, \<open>append\<close> treats them alike, and indexing either
  one panics; the only place the source tells them apart is \<open>Bytes\<close>, which skips a
  \<open>nil\<close> section and writes nothing for an empty one).
\<close>

type_synonym byte = "8 word"
type_synonym uint16 = "16 word"
type_synonym uint64 = "64 word"

type_synonym FnCode = byte
type_synonym ExCode = byte

definition INIT :: FnCode where "INIT = 0x00"
definition RDCO :: FnCode where "RDCO = 0x01"
definition RDDI :: FnCode where "RDDI = 0x02"
definition RDHR :: FnCode where "RDHR = 0x03"
definition RDIR :: FnCode where "RDIR = 0x04"
definition RSID :: FnCode where "RSID = 0x11"
definition FERR :: FnCode where "FERR = 0x80"

definition IllegalFunction :: ExCode where "IllegalFunction = 1"
definition IllegalDataAddress :: ExCode where "IllegalDataAddress = 2"
definition IllegalDataValue :: ExCode where "IllegalDataValue = 3"
definition ServerDeviceFailure :: ExCode where "ServerDeviceFailure = 4"
definition Acknowledge :: ExCode where "Acknowledge = 5"
definition ServerDeviceBusy :: ExCode where "ServerDeviceBusy = 6"
definition MemoryParityError :: ExCode where "MemoryParityError = 8"
definition GatewayPathUnavailable :: ExCode where "GatewayPathUnavailable = 10"
definition GatewayTargetDeviceFailedToRespond :: ExCode where
  "GatewayTargetDeviceFailedToRespond = 11"

text \<open>The package variable \<open>Exception\<close>, a Go map from exception code to its description
  (the name \<open>Exception\<close> itself is the field of the ADU below).\<close>

definition Exception_table :: "ExCode \<rightharpoonup> string" where
  "Exception_table = [
     IllegalFunction \<mapsto> ''Illegal function code'',
     IllegalDataAddress \<mapsto> ''Illegal data address'',
     IllegalDataValue \<mapsto> ''Illegal data value'',
     ServerDeviceFailure \<mapsto> ''Server device failure'',
     Acknowledge \<mapsto> ''Acknowledge'',
     ServerDeviceBusy \<mapsto> ''Server device busy'',
     MemoryParityError \<mapsto> ''Memory parity error'',
     GatewayPathUnavailable \<mapsto> ''Gateway path unavailable'',
     GatewayTargetDeviceFailedToRespond \<mapsto> ''Gateway target device failed to respond'']"

text \<open>The wire constants of type \<open>Length\<close>.\<close>

definition LSID :: nat where "LSID = 1"
definition LFNC :: nat where "LFNC = 1"
definition LCRC :: nat where "LCRC = 2"
definition LTID :: nat where "LTID = 2"
definition LPID :: nat where "LPID = 2"
definition LLEN :: nat where "LLEN = 2"
definition LSOF :: nat where "LSOF = 1"
definition LEOF :: nat where "LEOF = 2"
definition LLRC :: nat where "LLRC = 1"

definition COLON :: byte where "COLON = 0x3A"
definition CR :: byte where "CR = 0x0D"
definition LF :: byte where "LF = 0x0A"

text \<open>
  The tags of the state machine. In Go \<open>State\<close>, \<open>Section\<close> and \<open>Element\<close> are
  integer types with these named constants; the package passes no other value around.
\<close>

datatype State = TCOMPLETE | TRESET | TPROCESS | TFAILURE

datatype Section = SMBAP | SRTU | SASCII | SPDU | SERR | SDONE | SFAIL | SSOF | SEOF

datatype Element = ENONE | ETRANSID | EPROTOID | ESLAVEID | EFNCODE | ELENGTH | EEXCODE
  | EDATA | ECRC | ELRC

text \<open>
  Every \<open>fmt.Errorf\<close> of the source is one constructor, carrying the value the message
  prints where a caller could tell two errors apart by it. \<open>RuntimePanic\<close> is not an
  error value of the source: it stands for a Go run-time panic (index or slice bound out of
  range, nil dereference), which unwinds through every caller.
\<close>

datatype error =
    FailureToProcess
  | UnsupportedSection Section
  | FrameAlignmentSOF
  | FrameAlignmentEOF
  | NoStartOfFrame
  | NoEndOfFrame
  | UnsupportedElement Element
  | HeaderTooShort nat
  | ResponseTooShort nat
  | CRCMismatch uint16
  | UnsupportedFnCode FnCode
  | UnsupportedExCode ExCode
  | IllegalLength
  | UnableToCreateADU
  | AddressToRelative uint64
  | AddressToAbsolute uint64
  | UnsupportedFunction FnCode
  | SerializeFailed
  | RequestFailed string
  | ListenFailed string
  | ListenSetupFailed error
  | DecodeFailed error
  | RuntimePanic

record Request =
  FnCode :: FnCode
  Address :: uint16
  Quantity :: uint16
  Count :: byte
  Values :: "uint16 list"
  SubFn :: uint16
  ANDMask :: uint16
  ORMask :: uint16

record PDU =
  FnCode :: "byte list"
  Data :: "byte list"

text \<open>
  The Go struct \<open>ADU\<close> embeds \<open>MBAP\<close> and \<open>PDU\<close>, and the source reads their
  fields through the ADU (\<open>adu.FnCode\<close>, \<open>adu.Length\<close>): the record extends
  \<open>PDU\<close> and lists the three fields of \<open>MBAP\<close> in place.
\<close>

record ADU = PDU +
  SOF :: "byte list"
  Hdr :: "byte list"
  TransactionId :: uint16
  ProtocolId :: uint16
  Length :: uint16
  SlaveId :: byte
  Err :: "byte list"
  CRC :: uint16
  ExceptionCode :: ExCode
  Exception :: string
  Timeout :: bool
  EOF :: "byte list"

section \<open>Address translation and the request encoder (modbus.go)\<close>

text \<open>
  \<open>Relative\<close> writes the function code through its pointer argument and returns the
  relative address with an optional error; the model returns all three.
\<close>

definition Relative :: "uint64 \<Rightarrow> FnCode \<times> uint64 \<times> error option" where
  "Relative absolute =
     (if 0 \<le> absolute \<and> absolute \<le> 65535 then (RDCO, absolute, None)
      else if 100000 \<le> absolute \<and> absolute \<le> 165535 then (RDDI, absolute - 100000, None)
      else if 300000 \<le> absolute \<and> absolute \<le> 365535 then (RDIR, absolute - 300000, None)
      else if 400000 \<le> absolute \<and> absolute \<le> 465535 then (RDHR, absolute - 400000, None)
      else (FERR, absolute, Some (AddressToRelative absolute)))"

definition Absolute :: "FnCode \<Rightarrow> uint64 \<Rightarrow> uint64 \<times> error option" where
  "Absolute fncode relative =
     (if fncode = RDCO then (relative, None)
      else if fncode = RDDI then (relative + 100000, None)
      else if fncode = RDIR then (relative + 300000, None)
      else if fncode = RDHR then (relative + 400000, None)
      else (relative, Some (AddressToAbsolute relative)))"

text \<open>The legal absolute register numbers: the four ranges of the translation table.\<close>

definition legal_absolute :: "uint64 \<Rightarrow> bool" where
  "legal_absolute a \<longleftrightarrow>
     a \<le> 65535 \<or> (100000 \<le> a \<and> a \<le> 165535) \<or> (300000 \<le> a \<and> a \<le> 365535)
     \<or> (400000 \<le> a \<and> a \<le> 465535)"

text \<open>\<open>binary.BigEndian.PutUint16\<close> on a fresh two-byte slice: high byte first.\<close>

definition be16 :: "uint16 \<Rightarrow> byte list" where
  "be16 v = [ucast (drop_bit 8 v), ucast v]"

definition NewPDU :: "FnCode \<Rightarrow> PDU \<times> error option" where
  "NewPDU fncode = (\<lparr>PDU.FnCode = [fncode], Data = []\<rparr>, None)"

text \<open>
  \<open>Request.Encode\<close>: the PDU of \<open>NewPDU\<close> with its data filled in per function code;
  the default branch returns an empty PDU and the error.
\<close>

definition Encode_Request :: "Request \<Rightarrow> PDU \<times> error option" where
  "Encode_Request r =
     (let (pdu, err) = NewPDU (Request.FnCode r) in
      if Request.FnCode r = RSID then (pdu\<lparr>Data := []\<rparr>, err)
      else if Request.FnCode r \<in> {RDCO, RDDI, RDHR, RDIR}
        then (pdu\<lparr>Data := be16 (Address r) @ be16 (Quantity r)\<rparr>, err)
      else (\<lparr>PDU.FnCode = [], Data = []\<rparr>, Some (UnsupportedFunction (Request.FnCode r))))"

section \<open>The frame model (modbus.go)\<close>

text \<open>The zero value of the Go struct, with the PDU copied in: \<open>&ADU{PDU: *pdu}\<close>.\<close>

definition ADU_of_PDU :: "PDU \<Rightarrow> ADU" where
  "ADU_of_PDU pdu =
     \<lparr>PDU.FnCode = PDU.FnCode pdu, Data = Data pdu, SOF = [], Hdr = [], TransactionId = 0,
      ProtocolId = 0, Length = 0, SlaveId = 0, Err = [], CRC = 0, ExceptionCode = 0,
      Exception = [], Timeout = False, EOF = []\<rparr>"

text \<open>\<open>NewADU\<close>: a \<open>nil\<close> PDU (\<open>None\<close>) is replaced by one with function code \<open>FERR\<close>.\<close>

definition NewADU :: "PDU option \<Rightarrow> error + ADU" where
  "NewADU p =
     (case p of
        None \<Rightarrow> (case NewPDU FERR of
                   (pdu, Some e) \<Rightarrow> Inl e
                 | (pdu, None) \<Rightarrow> Inr (ADU_of_PDU pdu))
      | Some pdu \<Rightarrow> Inr (ADU_of_PDU pdu))"

text \<open>
  \<open>Bytes\<close> writes the sections in order. Its local \<open>err\<close> is never assigned, so the
  error result is always \<open>nil\<close>.
\<close>

definition Bytes :: "ADU \<Rightarrow> byte list \<times> error option" where
  "Bytes d = (SOF d @ Hdr d @ PDU.FnCode d @ Data d @ Err d @ EOF d, None)"

text \<open>
  Modelled from the spec: the type \<open>CRC\<close> with its methods \<open>reset\<close>, \<open>calculate\<close> and
  \<open>value\<close> is not among the source files. The spec (4.A) gives CRC-16 (Modbus):
  polynomial 0xA001 (reflected 0x8005), initial value 0xFFFF, no final XOR, reflected input
  and output. \<open>CRC16 bs\<close> is \<open>crc.reset().calculate(bs)\<close> followed by \<open>crc.value()\<close>.
\<close>

definition crc_shift :: "uint16 \<Rightarrow> uint16" where
  "crc_shift c = (if c AND 1 = 1 then drop_bit 1 c XOR 0xA001 else drop_bit 1 c)"

definition crc_update :: "uint16 \<Rightarrow> byte \<Rightarrow> uint16" where
  "crc_update c b =
     crc_shift (crc_shift (crc_shift (crc_shift (crc_shift (crc_shift (crc_shift (crc_shift
       (c XOR ucast b))))))))"

definition CRC16 :: "byte list \<Rightarrow> uint16" where
  "CRC16 bs = foldl crc_update 0xFFFF bs"

text \<open>
  Modelled from the spec: the source has no LRC computation at all. The spec (4.A) gives
  LRC-8 as the twos-complement of the 8-bit sum of the bytes.
\<close>

definition LRC8 :: "byte list \<Rightarrow> byte" where
  "LRC8 bs = - sum_list bs"

text \<open>\<open>ErrorCRC\<close>: clear \<open>Err\<close>, serialize, store the CRC and its two bytes, high first.\<close>

definition ErrorCRC :: "ADU \<Rightarrow> ADU \<times> error option" where
  "ErrorCRC d =
     (let d1 = d\<lparr>Err := []\<rparr> in
      case Bytes d1 of
        (aduBytes, Some e) \<Rightarrow> (d1, Some SerializeFailed)
      | (aduBytes, None) \<Rightarrow>
          (let crc = CRC16 aduBytes in
           (d1\<lparr>CRC := crc, Err := [ucast (drop_bit 8 crc), ucast crc]\<rparr>, None)))"

text \<open>
  \<open>ErrorLRC\<close>: clear \<open>Err\<close>, serialize, and return. The body after the serialization
  is an empty \<open>if\<close> and a comment; nothing is computed and nothing is written.
\<close>

definition ErrorLRC :: "ADU \<Rightarrow> ADU \<times> error option" where
  "ErrorLRC d =
     (let d1 = d\<lparr>Err := []\<rparr> in
      case Bytes d1 of
        (aduBytes, Some e) \<Rightarrow> (d1, Some SerializeFailed)
      | (aduBytes, None) \<Rightarrow> (d1, None))"

section \<open>The decoder (protocol.go)\<close>

text \<open>
  Reads and writes of slices, with Go's bounds checks: \<open>xs[i]\<close>, \<open>xs[n:]\<close>,
  \<open>xs[i] = v\<close>, \<open>binary.BigEndian.Uint16\<close> and \<open>binary.BigEndian.PutUint16\<close>
  (both need two bytes), and \<open>PutUint16(xs[n:], v)\<close>, which writes into \<open>xs\<close> itself.
\<close>

definition index :: "byte list \<Rightarrow> nat \<Rightarrow> error + byte" where
  "index xs i = (if i < length xs then Inr (xs ! i) else Inl RuntimePanic)"

definition slice_from :: "byte list \<Rightarrow> nat \<Rightarrow> error + byte list" where
  "slice_from xs n = (if n \<le> length xs then Inr (drop n xs) else Inl RuntimePanic)"

definition store :: "byte list \<Rightarrow> nat \<Rightarrow> byte \<Rightarrow> error + byte list" where
  "store xs i v = (if i < length xs then Inr (xs[i := v]) else Inl RuntimePanic)"

definition Uint16 :: "byte list \<Rightarrow> error + uint16" where
  "Uint16 b =
     (if 2 \<le> length b then Inr (push_bit 8 (ucast (b ! 0)) OR ucast (b ! 1))
      else Inl RuntimePanic)"

definition PutUint16 :: "byte list \<Rightarrow> uint16 \<Rightarrow> error + byte list" where
  "PutUint16 b v =
     (if 2 \<le> length b then Inr (b[0 := ucast (drop_bit 8 v), 1 := ucast v])
      else Inl RuntimePanic)"

definition Uint16_from :: "byte list \<Rightarrow> nat \<Rightarrow> error + uint16" where
  "Uint16_from xs n = (case slice_from xs n of Inl e \<Rightarrow> Inl e | Inr b \<Rightarrow> Uint16 b)"

definition PutUint16_from :: "byte list \<Rightarrow> nat \<Rightarrow> uint16 \<Rightarrow> error + byte list" where
  "PutUint16_from xs n v =
     (case slice_from xs n of
        Inl e \<Rightarrow> Inl e
      | Inr b \<Rightarrow> (case PutUint16 b v of Inl e \<Rightarrow> Inl e | Inr b' \<Rightarrow> Inr (take n xs @ b')))"

text \<open>
  The locals of \<open>Recover\<close> that the handlers read and write through pointers: the frame
  under construction, the cursor \<open>cnt\<close> (a byte: it wraps at 256), the section (primed
  here, \<open>section\<close> being a keyword) and the element. A handler returns the updated locals,
  or the error it returns in the source (\<open>Recover\<close> then returns \<open>nil\<close> and that
  error, and the locals are gone), or a panic.
\<close>

record locals =
  adu :: ADU
  cnt :: byte
  section' :: Section
  element :: Element

text \<open>\<open>handleSOF\<close> and \<open>handleEOF\<close>: the frame delimiters of the ASCII variant.\<close>

definition handleSOF :: "byte list \<Rightarrow> Section \<Rightarrow> locals \<Rightarrow> error + locals" where
  "handleSOF response start s =
     (case start of
        SMBAP \<Rightarrow> Inr s
      | SRTU \<Rightarrow> Inr s
      | SASCII \<Rightarrow>
          (case index response (unat (cnt s)) of
             Inl e \<Rightarrow> Inl e
           | Inr b \<Rightarrow>
               (case store (SOF (adu s)) 0 b of
                  Inl e \<Rightarrow> Inl e
                | Inr sof \<Rightarrow>
                    if sof ! 0 \<noteq> COLON then Inl FrameAlignmentSOF
                    else Inr (s\<lparr>adu := (adu s)\<lparr>SOF := sof\<rparr>, cnt := cnt s + 1,
                                section' := SEOF\<rparr>)))
      | _ \<Rightarrow> Inl NoStartOfFrame)"

definition handleEOF :: "byte list \<Rightarrow> Section \<Rightarrow> locals \<Rightarrow> error + locals" where
  "handleEOF response start s =
     (case start of
        SMBAP \<Rightarrow> Inr s
      | SRTU \<Rightarrow> Inr s
      | SASCII \<Rightarrow>
          (if length response < LEOF then Inl RuntimePanic
           else
             (let eof = drop (length response - LEOF) response in
              if eof ! 0 \<noteq> CR \<or> eof ! 1 \<noteq> LF then Inl FrameAlignmentEOF
              else Inr (s\<lparr>adu := (adu s)\<lparr>EOF := eof\<rparr>, section' := SERR\<rparr>)))
      | _ \<Rightarrow> Inl NoEndOfFrame)"

text \<open>
  \<open>handleMBAP\<close>: the loop over the elements of the MBAP header. Each element is read
  from the response at the cursor and copied into \<open>adu.Hdr\<close> at the same offset. The
  handler does not allocate \<open>adu.Hdr\<close> (the two other header handlers do, with
  \<open>make([]byte, 1)\<close>) and does not check the length of the response.
\<close>

fun mbap_rank :: "Element \<Rightarrow> nat" where
  "mbap_rank ETRANSID = 3"
| "mbap_rank EPROTOID = 2"
| "mbap_rank ELENGTH = 1"
| "mbap_rank _ = 0"

function handleMBAP_loop :: "byte list \<Rightarrow> locals \<Rightarrow> error + locals" where
  "handleMBAP_loop response s =
     (case element s of
        ETRANSID \<Rightarrow>
          (case Uint16_from response (unat (cnt s)) of
             Inl e \<Rightarrow> Inl e
           | Inr v \<Rightarrow>
               (case PutUint16_from (Hdr (adu s)) (unat (cnt s)) v of
                  Inl e \<Rightarrow> Inl e
                | Inr hdr \<Rightarrow>
                    handleMBAP_loop response
                      (s\<lparr>adu := (adu s)\<lparr>TransactionId := v, Hdr := hdr\<rparr>,
                         cnt := cnt s + of_nat LTID, element := EPROTOID\<rparr>)))
      | EPROTOID \<Rightarrow>
          (case Uint16_from response (unat (cnt s)) of
             Inl e \<Rightarrow> Inl e
           | Inr v \<Rightarrow>
               (case PutUint16_from (Hdr (adu s)) (unat (cnt s)) v of
                  Inl e \<Rightarrow> Inl e
                | Inr hdr \<Rightarrow>
                    handleMBAP_loop response
                      (s\<lparr>adu := (adu s)\<lparr>ProtocolId := v, Hdr := hdr\<rparr>,
                         cnt := cnt s + of_nat LPID, element := ELENGTH\<rparr>)))
      | ELENGTH \<Rightarrow>
          (case Uint16_from response (unat (cnt s)) of
             Inl e \<Rightarrow> Inl e
           | Inr v \<Rightarrow>
               (case PutUint16_from (Hdr (adu s)) (unat (cnt s)) v of
                  Inl e \<Rightarrow> Inl e
                | Inr hdr \<Rightarrow>
                    handleMBAP_loop response
                      (s\<lparr>adu := (adu s)\<lparr>Length := v, Hdr := hdr\<rparr>,
                         cnt := cnt s + of_nat LLEN, element := ESLAVEID\<rparr>)))
      | ESLAVEID \<Rightarrow>
          (case index response (unat (cnt s)) of
             Inl e \<Rightarrow> Inl e
           | Inr b \<Rightarrow>
               (case store (Hdr (adu s)) (unat (cnt s)) b of
                  Inl e \<Rightarrow> Inl e
                | Inr hdr \<Rightarrow>
                    Inr (s\<lparr>adu := (adu s)\<lparr>SlaveId := b, Hdr := hdr\<rparr>, cnt := cnt s + 1,
                           section' := SPDU\<rparr>)))
      | _ \<Rightarrow> Inl (UnsupportedElement (element s)))"
  by pat_completeness auto
termination
  by (relation "measure (\<lambda>(response, s). mbap_rank (element s))") auto

definition handleMBAP :: "byte list \<Rightarrow> locals \<Rightarrow> error + locals" where
  "handleMBAP response s = handleMBAP_loop response (s\<lparr>element := ETRANSID\<rparr>)"

text \<open>
  \<open>handleRTU\<close> and \<open>handleASCII\<close>: length check, a fresh one-byte header, the slave id.
  The \<open>switch\<close> on the element that was set one line above has one reachable case.
\<close>

definition handleRTU :: "byte list \<Rightarrow> locals \<Rightarrow> error + locals" where
  "handleRTU response s =
     (if length response < LSID + LFNC + LCRC then Inl (HeaderTooShort (length response))
      else
        (case index response (unat (cnt s)) of
           Inl e \<Rightarrow> Inl e
         | Inr b \<Rightarrow>
             (case store [0] (unat (cnt s)) b of
                Inl e \<Rightarrow> Inl e
              | Inr hdr \<Rightarrow>
                  Inr (s\<lparr>adu := (adu s)\<lparr>SlaveId := b, Hdr := hdr\<rparr>, cnt := cnt s + 1,
                         section' := SPDU, element := ESLAVEID\<rparr>))))"

definition handleASCII :: "byte list \<Rightarrow> locals \<Rightarrow> error + locals" where
  "handleASCII response s =
     (if length response < LSOF + LSID + LFNC + LLRC + LEOF
      then Inl (HeaderTooShort (length response))
      else
        (case index response (unat (cnt s)) of
           Inl e \<Rightarrow> Inl e
         | Inr b \<Rightarrow>
             (case store [0] (unat (cnt s)) b of
                Inl e \<Rightarrow> Inl e
              | Inr hdr \<Rightarrow>
                  Inr (s\<lparr>adu := (adu s)\<lparr>SlaveId := b, Hdr := hdr\<rparr>, cnt := cnt s + 1,
                         section' := SPDU, element := ESLAVEID\<rparr>))))"

text \<open>
  \<open>handleCRC\<close>: the last two bytes of the response, read big-endian, against the CRC of
  everything before them. On a mismatch the source sets the section to \<open>SFAIL\<close> and
  returns the error; \<open>Recover\<close> returns at once on the error.
\<close>

definition handleCRC :: "byte list \<Rightarrow> locals \<Rightarrow> error + locals" where
  "handleCRC response s =
     (if length response < LCRC + (LSID + LFNC) then Inl (ResponseTooShort (length response))
      else
        (case Uint16_from response (length response - LCRC) of
           Inl e \<Rightarrow> Inl e
         | Inr crcResponse \<Rightarrow>
             (case PutUint16 (replicate LCRC 0) crcResponse of
                Inl e \<Rightarrow> Inl e
              | Inr err \<Rightarrow>
                  if crcResponse = CRC16 (take (length response - LCRC) response)
                  then Inr (s\<lparr>adu := (adu s)\<lparr>CRC := crcResponse, Err := err\<rparr>,
                              section' := SRTU\<rparr>)
                  else Inl (CRCMismatch crcResponse))))"

definition handleLRC :: "byte list \<Rightarrow> locals \<Rightarrow> error + locals" where
  "handleLRC response s = Inr (s\<lparr>section' := SASCII\<rparr>)"

text \<open>
  The data loop of \<open>handlePDU\<close>:
  \<open>for idx = 0; idx < byte(adu.Length); idx++ { append response[*cnt]; *cnt++ }\<close>.
  The bound is the low byte of \<open>adu.Length\<close>; the index and the cursor are bytes.
\<close>

function EDATA_loop :: "byte list \<Rightarrow> byte \<Rightarrow> byte \<Rightarrow> byte list \<Rightarrow> byte \<Rightarrow> error + byte list \<times> byte"
  where
  "EDATA_loop response n idx data c =
     (if idx < n then
        (case index response (unat c) of
           Inl e \<Rightarrow> Inl e
         | Inr b \<Rightarrow> EDATA_loop response n (idx + 1) (data @ [b]) (c + 1))
      else Inr (data, c))"
  by pat_completeness auto
termination
proof (relation "measure (\<lambda>(response, n, idx, data, c). unat n - unat idx)")
  fix response :: "byte list" and n idx c :: byte and data :: "byte list" and b :: byte
  assume "idx < n"
  then have lt: "unat idx < unat n"
    by (simp add: word_less_nat_alt)
  moreover have "unat n < 2 ^ LENGTH(8)"
    by (rule unsigned_less)
  ultimately have "unat idx + unat (1 :: byte) < 2 ^ LENGTH(8)"
    by simp
  then have "unat (idx + 1) = unat idx + unat (1 :: byte)"
    by (simp only: unat_add_lem)
  with lt show "((response, n, idx + 1, data @ [b], c + 1), (response, n, idx, data, c))
      \<in> measure (\<lambda>(response, n, idx, data, c). unat n - unat idx)"
    by simp
qed simp

text \<open>
  \<open>handlePDU\<close>: the loop over the elements of the PDU. In the branch for the function
  code, start section \<open>SASCII\<close> sets no next element, so the loop reads the next byte as
  a function code again; with a cursor that wraps this need not end, and the loop is a
  partial function (\<open>None\<close>: no return).
\<close>

partial_function (option) handlePDU_loop ::
  "byte list \<Rightarrow> Section \<Rightarrow> locals \<Rightarrow> (error + locals) option" where
  "handlePDU_loop response start s =
     (case element s of
        EFNCODE \<Rightarrow>
          (case index response (unat (cnt s)) of
             Inl e \<Rightarrow> Some (Inl e)
           | Inr fncode \<Rightarrow>
               (let s1 = s\<lparr>adu := (adu s)\<lparr>PDU.FnCode := [fncode]\<rparr>, cnt := cnt s + 1\<rparr> in
                if FERR \<le> fncode then handlePDU_loop response start (s1\<lparr>element := EEXCODE\<rparr>)
                else if fncode \<notin> {RDCO, RDDI, RDIR, RDHR}
                  then Some (Inl (UnsupportedFnCode fncode))
                else
                  (case start of
                     SMBAP \<Rightarrow> handlePDU_loop response start (s1\<lparr>element := EDATA\<rparr>)
                   | SRTU \<Rightarrow> handlePDU_loop response start (s1\<lparr>element := ELENGTH\<rparr>)
                   | SASCII \<Rightarrow> handlePDU_loop response start s1
                   | _ \<Rightarrow> Some (Inl (UnsupportedSection start)))))
      | EEXCODE \<Rightarrow>
          (case index response (unat (cnt s)) of
             Inl e \<Rightarrow> Some (Inl e)
           | Inr excode \<Rightarrow>
               (let a1 = (adu s)\<lparr>ExceptionCode := excode, Data := [excode]\<rparr> in
                if excode \<notin> {0, IllegalFunction, IllegalDataAddress, IllegalDataValue,
                     ServerDeviceFailure, Acknowledge, ServerDeviceBusy, MemoryParityError,
                     GatewayPathUnavailable, GatewayTargetDeviceFailedToRespond}
                  then Some (Inl (UnsupportedExCode excode))
                else
                  (let a2 = (case Exception_table excode of
                               Some txt \<Rightarrow> a1\<lparr>Exception := txt\<rparr>
                             | None \<Rightarrow> a1)
                   in Some (Inr (s\<lparr>adu := a2, cnt := cnt s + 1, section' := SDONE\<rparr>)))))
      | ELENGTH \<Rightarrow>
          (case index response (unat (cnt s)) of
             Inl e \<Rightarrow> Some (Inl e)
           | Inr b \<Rightarrow>
               (let a1 = (adu s)\<lparr>Length := ucast b, Data := [b]\<rparr> in
                if ucast b \<le> (0 :: uint16) then Some (Inl IllegalLength)
                else handlePDU_loop response start
                       (s\<lparr>adu := a1, cnt := cnt s + 1, element := EDATA\<rparr>)))
      | EDATA \<Rightarrow>
          (case EDATA_loop response (ucast (Length (adu s))) 0 (Data (adu s)) (cnt s) of
             Inl e \<Rightarrow> Some (Inl e)
           | Inr (data, c) \<Rightarrow>
               Some (Inr (s\<lparr>adu := (adu s)\<lparr>Data := data\<rparr>, cnt := c, section' := SDONE\<rparr>)))
      | _ \<Rightarrow> Some (Inl (UnsupportedElement (element s))))"

declare handlePDU_loop.simps [code]

definition handlePDU :: "byte list \<Rightarrow> Section \<Rightarrow> locals \<Rightarrow> (error + locals) option" where
  "handlePDU response start s = handlePDU_loop response start (s\<lparr>element := EFNCODE\<rparr>)"

text \<open>
  The inner loop of \<open>Recover\<close>, over the section. It ends when a branch sets
  \<open>exitSection\<close>, and the result carries the \<open>state\<close> that branch has set; an error
  of a handler ends \<open>Recover\<close> itself.
\<close>

partial_function (option) section_loop ::
  "byte list \<Rightarrow> Section \<Rightarrow> locals \<Rightarrow> (error + State \<times> locals) option" where
  "section_loop response start s =
     (case section' s of
        SFAIL \<Rightarrow> Some (Inr (TFAILURE, s))
      | SDONE \<Rightarrow> Some (Inr (TCOMPLETE, s))
      | SSOF \<Rightarrow>
          (case handleSOF response start s of
             Inl e \<Rightarrow> Some (Inl e)
           | Inr s' \<Rightarrow> section_loop response start s')
      | SEOF \<Rightarrow>
          (case handleEOF response start s of
             Inl e \<Rightarrow> Some (Inl e)
           | Inr s' \<Rightarrow> section_loop response start s')
      | SMBAP \<Rightarrow>
          (case handleMBAP response s of
             Inl e \<Rightarrow> Some (Inl e)
           | Inr s' \<Rightarrow> section_loop response start s')
      | SRTU \<Rightarrow>
          (case handleRTU response s of
             Inl e \<Rightarrow> Some (Inl e)
           | Inr s' \<Rightarrow> section_loop response start s')
      | SASCII \<Rightarrow>
          (case handleASCII response s of
             Inl e \<Rightarrow> Some (Inl e)
           | Inr s' \<Rightarrow> section_loop response start s')
      | SPDU \<Rightarrow>
          (case handlePDU response start s of
             None \<Rightarrow> None
           | Some (Inl e) \<Rightarrow> Some (Inl e)
           | Some (Inr s') \<Rightarrow> section_loop response start s')
      | SERR \<Rightarrow>
          (case start of
             SMBAP \<Rightarrow> Some (Inr (TCOMPLETE, s\<lparr>element := ENONE\<rparr>))
           | SRTU \<Rightarrow>
               (case handleCRC response (s\<lparr>element := ECRC\<rparr>) of
                  Inl e \<Rightarrow> Some (Inl e)
                | Inr s' \<Rightarrow> section_loop response start s')
           | SASCII \<Rightarrow>
               (case handleLRC response (s\<lparr>element := ELRC\<rparr>) of
                  Inl e \<Rightarrow> Some (Inl e)
                | Inr s' \<Rightarrow> section_loop response start s')
           | _ \<Rightarrow> Some (Inl (UnsupportedSection start))))"

declare section_loop.simps [code]

text \<open>
  The outer loop of \<open>Recover\<close>, over the state. The local \<open>adu\<close> is a \<open>nil\<close>
  pointer (\<open>None\<close>) until the state \<open>TPROCESS\<close> allocates the frame.
\<close>

partial_function (option) Recover_loop ::
  "byte list \<Rightarrow> Section \<Rightarrow> State \<Rightarrow> ADU option \<Rightarrow> byte \<Rightarrow> Section \<Rightarrow> Element
     \<Rightarrow> (error + ADU option) option" where
  "Recover_loop response start state a c sec el =
     (case state of
        TCOMPLETE \<Rightarrow> Some (Inr a)
      | TFAILURE \<Rightarrow> Some (Inl FailureToProcess)
      | TRESET \<Rightarrow> Recover_loop response start TPROCESS a c sec el
      | TPROCESS \<Rightarrow>
          (case (case start of
                   SRTU \<Rightarrow> Inr SERR
                 | SMBAP \<Rightarrow> Inr sec
                 | SASCII \<Rightarrow> Inr SSOF
                 | _ \<Rightarrow> Inl (UnsupportedSection start)) of
             Inl e \<Rightarrow> Some (Inl e)
           | Inr sec1 \<Rightarrow>
               (case NewADU None of
                  Inl e \<Rightarrow> Some (Inl UnableToCreateADU)
                | Inr a1 \<Rightarrow>
                    (case section_loop response start
                            \<lparr>adu = a1, cnt = c, section' = sec1, element = el\<rparr> of
                       None \<Rightarrow> None
                     | Some (Inl e) \<Rightarrow> Some (Inl e)
                     | Some (Inr (state', s')) \<Rightarrow>
                         Recover_loop response start state' (Some (adu s')) (cnt s')
                           (section' s') (element s')))))"

declare Recover_loop.simps [code]

definition Recover :: "byte list \<Rightarrow> Section \<Rightarrow> (error + ADU option) option" where
  "Recover response sec = Recover_loop response sec TRESET None 0 sec ENONE"

text \<open>
  The three protocols and their \<open>Decode\<close>. \<open>ASCII.Decode\<close> assigns to a field of the
  \<open>nil\<close> pointer \<open>tmp\<close> in its first statement, which panics whatever the response.
\<close>

datatype Protocol = ModbusTCP | RTU | ASCII

definition Decode :: "Protocol \<Rightarrow> byte list \<Rightarrow> (error + ADU option) option" where
  "Decode p response =
     (case p of
        ModbusTCP \<Rightarrow>
          (case Recover response SMBAP of
             None \<Rightarrow> None
           | Some (Inl e) \<Rightarrow> Some (Inl e)
           | Some (Inr a) \<Rightarrow> Some (Inr a))
      | RTU \<Rightarrow>
          (case Recover response SRTU of
             None \<Rightarrow> None
           | Some (Inl e) \<Rightarrow> Some (Inl e)
           | Some (Inr a) \<Rightarrow> Some (Inr a))
      | ASCII \<Rightarrow> Some (Inl RuntimePanic))"

section \<open>The client engine (client.go)\<close>

text \<open>
  \<open>Transport\<close> is an interface; its implementations do I/O. The model takes what the
  calls of one transaction return: the error of \<open>Send\<close> for a frame and the error of
  \<open>Listen\<close> (\<open>None\<close> is \<open>nil\<close>, otherwise the text of \<open>err.Error()\<close>), and the
  bytes of \<open>Buffer\<close>. Locking and flushing the buffer are left out. \<open>Client_do\<close> is
  the method \<open>do\<close> of \<open>Client\<close>.
\<close>

record Transport =
  Send :: "ADU \<Rightarrow> string option"
  Listen :: "string option"
  Buffer :: "byte list"

record Client =
  Protocol :: Protocol
  Transport :: Transport

text \<open>\<open>strings.Contains\<close>: the second string occurs in the first.\<close>

fun Contains :: "string \<Rightarrow> string \<Rightarrow> bool" where
  "Contains [] substr = (substr = [])"
| "Contains (c # cs) substr = (take (length substr) (c # cs) = substr \<or> Contains cs substr)"

definition Client_do :: "Client \<Rightarrow> ADU \<Rightarrow> (error + ADU option) option" where
  "Client_do c request =
     (case Send (Transport c) request of
        Some err \<Rightarrow> Some (Inl (RequestFailed err))
      | None \<Rightarrow>
          (case Listen (Transport c) of
             Some err \<Rightarrow>
               if Contains err ''timeout'' then
                 (case NewPDU FERR of
                    (pdu, Some e) \<Rightarrow> Some (Inl (ListenSetupFailed e))
                  | (pdu, None) \<Rightarrow>
                      (case NewADU (Some pdu) of
                         Inl e \<Rightarrow> Some (Inl (ListenSetupFailed e))
                       | Inr response \<Rightarrow> Some (Inr (Some (response\<lparr>Timeout := True\<rparr>)))))
               else Some (Inl (ListenFailed err))
           | None \<Rightarrow>
               (case Decode (Protocol c) (Buffer (Transport c)) of
                  None \<Rightarrow> None
                | Some (Inl e) \<Rightarrow>
                    if e = RuntimePanic then Some (Inl RuntimePanic)
                    else Some (Inl (DecodeFailed e))
                | Some (Inr a) \<Rightarrow> Some (Inr a))))"

section \<open>Facts about bytes and 16-bit values\<close>

lemmas fncode_defs = INIT_def RDCO_def RDDI_def RDHR_def RDIR_def RSID_def FERR_def

lemmas excode_defs = IllegalFunction_def IllegalDataAddress_def IllegalDataValue_def
  ServerDeviceFailure_def Acknowledge_def ServerDeviceBusy_def MemoryParityError_def
  GatewayPathUnavailable_def GatewayTargetDeviceFailedToRespond_def

lemmas length_defs = LSID_def LFNC_def LCRC_def LTID_def LPID_def LLEN_def LSOF_def
  LEOF_def LLRC_def

lemma be16_value: "unat (be16 v ! 0) * 256 + unat (be16 v ! 1) = unat v"
proof -
  have "unat v < 65536"
    using unsigned_less [of v, where ?'a = nat] by simp
  then show ?thesis
    by (simp add: be16_def unsigned_ucast_eq unat_drop_bit_eq take_bit_eq_mod
        drop_bit_eq_div unat_div_distrib)
qed

lemma Uint16_value:
  fixes hi lo :: byte
  shows "(push_bit 8 (ucast hi) OR ucast lo :: uint16) = word_of_nat (256 * unat hi + unat lo)"
proof -
  have "(push_bit 8 (ucast hi) OR ucast lo :: uint16) = word_cat hi lo"
    by (simp add: word_cat_eq_push_bit_or)
  also have "\<dots> = push_bit 8 (ucast hi) + ucast lo"
    by (simp add: word_cat_eq)
  also have "\<dots> = word_of_nat (256 * unat hi + unat lo)"
    by (simp add: push_bit_eq_mult)
  finally show ?thesis .
qed

lemma unat_ucast_byte: "unat (ucast (b :: byte) :: uint16) = unat b"
proof -
  have "unat b < 2 ^ 16"
    using unsigned_less [of b, where ?'a = nat] by simp
  then show ?thesis
    by (simp add: unsigned_ucast_eq take_bit_nat_eq_self)
qed

lemma ucast_byte_eq_0: "(ucast (b :: byte) :: uint16) = 0 \<longleftrightarrow> b = 0"
  using unat_ucast_byte [of b] by (simp add: word_eq_iff_unsigned [where ?'a = nat])

lemma ucast_ucast_byte: "(ucast (ucast (b :: byte) :: uint16) :: byte) = b"
  by (simp add: word_eq_iff_unsigned [where ?'a = nat] unsigned_ucast_eq
      take_bit_word_eq_self)

lemma excode_supported_iff:
  fixes e :: byte
  shows "e \<in> {0, 1, 2, 3, 4, 5, 6, 8, 10, 11} \<longleftrightarrow> \<not> (e = 7 \<or> e = 9 \<or> 12 \<le> e)"
  by (simp add: word_le_nat_alt word_eq_iff_unsigned [where ?'a = nat]) arith

lemma bit7_iff: "bit (fn :: byte) 7 \<longleftrightarrow> 0x80 \<le> fn"
proof -
  have lt: "unat fn < 256"
    using unsigned_less [of fn, where ?'a = nat] by simp
  have "bit fn 7 \<longleftrightarrow> bit (unat fn) 7"
    by (simp add: bit_unsigned_iff)
  also have "\<dots> \<longleftrightarrow> odd (unat fn div 128)"
    by (simp add: bit_iff_odd)
  also have "\<dots> \<longleftrightarrow> 128 \<le> unat fn"
  proof (cases "128 \<le> unat fn")
    case True
    with lt have "unat fn div 128 = 1" by simp
    with True show ?thesis by simp
  next
    case False
    then have "unat fn div 128 = 0" by simp
    with False show ?thesis by simp
  qed
  finally show ?thesis
    by (simp add: word_le_nat_alt)
qed

lemma Contains_iff: "Contains s substr \<longleftrightarrow> (\<exists>pre post. s = pre @ substr @ post)"
proof (induction s)
  case Nil
  then show ?case by auto
next
  case (Cons c cs)
  show ?case
  proof
    assume "Contains (c # cs) substr"
    then consider "take (length substr) (c # cs) = substr" | "Contains cs substr"
      by auto
    then show "\<exists>pre post. c # cs = pre @ substr @ post"
    proof cases
      case 1
      then have "c # cs = [] @ substr @ drop (length substr) (c # cs)"
        by (metis append_Nil append_take_drop_id)
      then show ?thesis by blast
    next
      case 2
      then obtain pre post where "cs = pre @ substr @ post"
        using Cons.IH by blast
      then have "c # cs = (c # pre) @ substr @ post" by simp
      then show ?thesis by blast
    qed
  next
    assume "\<exists>pre post. c # cs = pre @ substr @ post"
    then obtain pre post where eq: "c # cs = pre @ substr @ post" by blast
    show "Contains (c # cs) substr"
    proof (cases pre)
      case Nil
      with eq have "take (length substr) (c # cs) = substr" by simp
      then show ?thesis by simp
    next
      case (Cons p ps)
      with eq have "cs = ps @ substr @ post" by simp
      then have "Contains cs substr" using Cons.IH by blast
      then show ?thesis by simp
    qed
  qed
qed

section \<open>The decoder, one element and one section at a time\<close>

text \<open>
  One unfolding of the loop of \<open>handlePDU\<close> for each element it can be in. The
  exception codes the \<open>switch\<close> accepts are written as numbers here.
\<close>

lemma handlePDU_EDATA:
  "element s = EDATA \<Longrightarrow>
   handlePDU_loop response start s =
     (case EDATA_loop response (ucast (Length (adu s))) 0 (Data (adu s)) (cnt s) of
        Inl e \<Rightarrow> Some (Inl e)
      | Inr (data, c) \<Rightarrow>
          Some (Inr (s\<lparr>adu := (adu s)\<lparr>Data := data\<rparr>, cnt := c, section' := SDONE\<rparr>)))"
  by (subst handlePDU_loop.simps) simp

lemma handlePDU_EEXCODE:
  "element s = EEXCODE \<Longrightarrow>
   handlePDU_loop response start s =
     (case index response (unat (cnt s)) of
        Inl e \<Rightarrow> Some (Inl e)
      | Inr excode \<Rightarrow>
          if excode \<notin> {0, 1, 2, 3, 4, 5, 6, 8, 10, 11} then Some (Inl (UnsupportedExCode excode))
          else Some (Inr (s\<lparr>adu := (adu s)\<lparr>ExceptionCode := excode, Data := [excode],
                 Exception := (case Exception_table excode of Some txt \<Rightarrow> txt
                               | None \<Rightarrow> Exception (adu s))\<rparr>,
               cnt := cnt s + 1, section' := SDONE\<rparr>)))"
  apply (subst handlePDU_loop.simps)
  apply (simp add: Let_def excode_defs split: sum.splits option.splits)
  done

lemma handlePDU_ELENGTH:
  "element s = ELENGTH \<Longrightarrow>
   handlePDU_loop response start s =
     (case index response (unat (cnt s)) of
        Inl e \<Rightarrow> Some (Inl e)
      | Inr b \<Rightarrow>
          if b = 0 then Some (Inl IllegalLength)
          else handlePDU_loop response start
                 (s\<lparr>adu := (adu s)\<lparr>Length := ucast b, Data := [b]\<rparr>, cnt := cnt s + 1,
                    element := EDATA\<rparr>))"
  apply (subst handlePDU_loop.simps)
  apply (simp add: Let_def ucast_byte_eq_0 split: sum.splits)
  done

lemma handlePDU_EFNCODE:
  "element s = EFNCODE \<Longrightarrow>
   handlePDU_loop response start s =
     (case index response (unat (cnt s)) of
        Inl e \<Rightarrow> Some (Inl e)
      | Inr fncode \<Rightarrow>
          if FERR \<le> fncode then
            handlePDU_loop response start
              (s\<lparr>adu := (adu s)\<lparr>PDU.FnCode := [fncode]\<rparr>, cnt := cnt s + 1,
                 element := EEXCODE\<rparr>)
          else if fncode \<notin> {RDCO, RDDI, RDIR, RDHR} then Some (Inl (UnsupportedFnCode fncode))
          else
            (case start of
               SMBAP \<Rightarrow>
                 handlePDU_loop response start
                   (s\<lparr>adu := (adu s)\<lparr>PDU.FnCode := [fncode]\<rparr>, cnt := cnt s + 1,
                      element := EDATA\<rparr>)
             | SRTU \<Rightarrow>
                 handlePDU_loop response start
                   (s\<lparr>adu := (adu s)\<lparr>PDU.FnCode := [fncode]\<rparr>, cnt := cnt s + 1,
                      element := ELENGTH\<rparr>)
             | SASCII \<Rightarrow>
                 handlePDU_loop response start
                   (s\<lparr>adu := (adu s)\<lparr>PDU.FnCode := [fncode]\<rparr>, cnt := cnt s + 1\<rparr>)
             | _ \<Rightarrow> Some (Inl (UnsupportedSection start))))"
  apply (subst handlePDU_loop.simps)
  apply (simp add: Let_def split: sum.splits)
  done

lemma NewADU_None: "NewADU None = Inr (ADU_of_PDU \<lparr>PDU.FnCode = [FERR], Data = []\<rparr>)"
  by (simp add: NewADU_def NewPDU_def)

lemma handlePDU_loop_EDATA_done:
  "element s = EDATA \<Longrightarrow>
   \<exists>r. handlePDU_loop response start s = Some r \<and> (\<forall>s'. r = Inr s' \<longrightarrow> section' s' = SDONE)"
  by (simp add: handlePDU_EDATA split: sum.splits prod.splits)

lemma handlePDU_loop_EEXCODE_done:
  "element s = EEXCODE \<Longrightarrow>
   \<exists>r. handlePDU_loop response start s = Some r \<and> (\<forall>s'. r = Inr s' \<longrightarrow> section' s' = SDONE)"
  by (simp add: handlePDU_EEXCODE split: sum.splits)

lemma handlePDU_loop_ELENGTH_done:
  "element s = ELENGTH \<Longrightarrow>
   \<exists>r. handlePDU_loop response start s = Some r \<and> (\<forall>s'. r = Inr s' \<longrightarrow> section' s' = SDONE)"
  by (simp add: handlePDU_ELENGTH handlePDU_loop_EDATA_done split: sum.splits)

lemma handlePDU_done:
  assumes "start = SMBAP \<or> start = SRTU"
  shows "\<exists>r. handlePDU response start s = Some r \<and> (\<forall>s'. r = Inr s' \<longrightarrow> section' s' = SDONE)"
  using assms unfolding handlePDU_def
  by (auto simp: handlePDU_EFNCODE handlePDU_loop_EDATA_done handlePDU_loop_EEXCODE_done
      handlePDU_loop_ELENGTH_done split: sum.splits)

lemma section_loop_SDONE:
  "section' s = SDONE \<Longrightarrow> section_loop response start s = Some (Inr (TCOMPLETE, s))"
  by (subst section_loop.simps) simp

lemma section_loop_SPDU:
  assumes "section' s = SPDU" and "start = SMBAP \<or> start = SRTU"
  shows "section_loop response start s =
     (case handlePDU response start s of
        None \<Rightarrow> None
      | Some (Inl e) \<Rightarrow> Some (Inl e)
      | Some (Inr s') \<Rightarrow> Some (Inr (TCOMPLETE, s')))"
proof -
  obtain r where r: "handlePDU response start s = Some r"
    and d: "\<forall>s'. r = Inr s' \<longrightarrow> section' s' = SDONE"
    using handlePDU_done [OF assms(2)] by blast
  show ?thesis
    using assms(1) r d
    by (subst section_loop.simps) (simp add: section_loop_SDONE split: sum.splits)
qed

lemma handleCRC_short:
  "length response < 4 \<Longrightarrow> handleCRC response s = Inl (ResponseTooShort (length response))"
  by (simp add: handleCRC_def length_defs)

lemma handleCRC_frame:
  assumes "4 \<le> length response"
  shows "handleCRC response s =
     (let n = length response - 2;
          crcResponse = word_of_nat (256 * unat (response ! n) + unat (response ! (n + 1)))
      in if crcResponse = CRC16 (take n response)
         then Inr (s\<lparr>adu := (adu s)\<lparr>CRC := crcResponse,
                      Err := [ucast (drop_bit 8 crcResponse), ucast crcResponse]\<rparr>,
                    section' := SRTU\<rparr>)
         else Inl (CRCMismatch crcResponse))"
proof -
  have "Uint16_from response (length response - 2) =
      Inr (word_of_nat (256 * unat (response ! (length response - 2))
             + unat (response ! (length response - 2 + 1))))"
    using assms by (simp add: Uint16_from_def slice_from_def Uint16_def Uint16_value)
  then show ?thesis
    using assms by (simp add: handleCRC_def length_defs PutUint16_def Let_def numeral_2_eq_2)
qed

lemma handleRTU_frame:
  assumes "4 \<le> length response" and "cnt s = 0"
  shows "handleRTU response s =
     Inr (s\<lparr>adu := (adu s)\<lparr>SlaveId := response ! 0, Hdr := [response ! 0]\<rparr>, cnt := 1,
            section' := SPDU, element := ESLAVEID\<rparr>)"
  using assms by (cases response) (simp_all add: handleRTU_def length_defs index_def store_def)

lemma Recover_SRTU_short:
  assumes "length response < 4"
  shows "Recover response SRTU = Some (Inl (ResponseTooShort (length response)))"
  unfolding Recover_def
  apply (subst Recover_loop.simps)
  apply simp
  apply (subst Recover_loop.simps)
  apply (simp add: NewADU_None)
  apply (subst section_loop.simps)
  apply (simp add: handleCRC_short [OF assms])
  done

lemma Recover_loop_TCOMPLETE:
  "Recover_loop response start TCOMPLETE a c sec el = Some (Inr a)"
  by (subst Recover_loop.simps) simp

lemma Recover_SRTU_frame:
  assumes "4 \<le> length response"
  shows "Recover response SRTU =
     (let n = length response - 2;
          crcResponse = word_of_nat (256 * unat (response ! n) + unat (response ! (n + 1)))
      in if crcResponse \<noteq> CRC16 (take n response) then Some (Inl (CRCMismatch crcResponse))
         else
           (case handlePDU response SRTU
                   \<lparr>adu = (ADU_of_PDU \<lparr>PDU.FnCode = [FERR], Data = []\<rparr>)
                      \<lparr>CRC := crcResponse,
                       Err := [ucast (drop_bit 8 crcResponse), ucast crcResponse],
                       SlaveId := response ! 0, Hdr := [response ! 0]\<rparr>,
                    cnt = 1, section' = SPDU, element = ESLAVEID\<rparr> of
              None \<Rightarrow> None
            | Some (Inl e) \<Rightarrow> Some (Inl e)
            | Some (Inr s') \<Rightarrow> Some (Inr (Some (adu s')))))"
  unfolding Recover_def
  apply (subst Recover_loop.simps)
  apply simp
  apply (subst Recover_loop.simps)
  apply (simp add: NewADU_None)
  apply (subst section_loop.simps)
  apply (simp add: handleCRC_frame [OF assms] Let_def)
  apply (intro impI)
  apply (subst section_loop.simps)
  apply (simp add: handleRTU_frame [OF assms])
  apply (simp add: section_loop_SPDU Recover_loop_TCOMPLETE split: option.splits sum.splits)
  done

lemma Decode_RTU: "Decode RTU response = Recover response SRTU"
  by (simp add: Decode_def split: option.splits sum.splits)

lemma Decode_ModbusTCP: "Decode ModbusTCP response = Recover response SMBAP"
  by (simp add: Decode_def split: option.splits sum.splits)

lemma handleMBAP_nil_Hdr:
  "Hdr (adu s) = [] \<Longrightarrow> handleMBAP response s = Inl RuntimePanic"
  by (simp add: handleMBAP_def Uint16_from_def PutUint16_from_def slice_from_def
      PutUint16_def Uint16_def split: sum.splits)

lemma handleSOF_nil_SOF:
  "SOF (adu s) = [] \<Longrightarrow> handleSOF response SASCII s = Inl RuntimePanic"
  by (simp add: handleSOF_def store_def index_def split: sum.splits)

lemma Recover_SMBAP: "Recover response SMBAP = Some (Inl RuntimePanic)"
  unfolding Recover_def
  apply (subst Recover_loop.simps)
  apply simp
  apply (subst Recover_loop.simps)
  apply (simp add: NewADU_None)
  apply (subst section_loop.simps)
  apply (simp add: handleMBAP_nil_Hdr ADU_of_PDU_def)
  done

lemma Recover_SASCII: "Recover response SASCII = Some (Inl RuntimePanic)"
  unfolding Recover_def
  apply (subst Recover_loop.simps)
  apply simp
  apply (subst Recover_loop.simps)
  apply (simp add: NewADU_None)
  apply (subst section_loop.simps)
  apply (simp add: handleSOF_nil_SOF ADU_of_PDU_def)
  done

lemma Recover_other:
  "sec \<notin> {SMBAP, SRTU, SASCII} \<Longrightarrow> Recover response sec = Some (Inl (UnsupportedSection sec))"
  unfolding Recover_def
  apply (subst Recover_loop.simps)
  apply simp
  apply (subst Recover_loop.simps)
  apply (cases sec; simp)
  done

lemma Recover_terminates: "\<exists>r. Recover response sec = Some r"
proof (cases "sec = SRTU")
  case True
  show ?thesis
  proof (cases "length response < 4")
    case True
    with \<open>sec = SRTU\<close> show ?thesis by (simp add: Recover_SRTU_short)
  next
    case False
    then have len: "4 \<le> length response" by simp
    have total: "handlePDU response SRTU s \<noteq> None" for s
      using handlePDU_done [of SRTU response s] by auto
    show ?thesis
      using \<open>sec = SRTU\<close>
      by (simp add: Recover_SRTU_frame [OF len] Let_def total
          split: sum.splits option.splits)
  qed
next
  case False
  then show ?thesis
    using Recover_SMBAP Recover_SASCII Recover_other [of sec response]
    by (cases sec) simp_all
qed

lemma EDATA_loop_length:
  "EDATA_loop response n idx data c = Inr (data', c') \<Longrightarrow> idx \<le> n \<Longrightarrow>
   length data' = length data + (unat n - unat idx) \<and> c' = c + (n - idx)"
proof (induction response n idx data c rule: EDATA_loop.induct)
  case (1 response n idx data c)
  show ?case
  proof (cases "idx < n")
    case True
    then have lt: "unat idx < unat n"
      by (simp add: word_less_nat_alt)
    moreover have "unat n < 2 ^ LENGTH(8)"
      by (rule unsigned_less)
    ultimately have "unat idx + unat (1 :: byte) < 2 ^ LENGTH(8)"
      by simp
    then have suc: "unat (idx + 1) = unat idx + 1"
      by (simp add: unat_add_lem [THEN iffD1])
    then have le: "idx + 1 \<le> n"
      using lt by (simp add: word_le_nat_alt)
    from True "1.prems" obtain b where b: "index response (unat c) = Inr b"
      and rec: "EDATA_loop response n (idx + 1) (data @ [b]) (c + 1) = Inr (data', c')"
      by (simp split: sum.splits)
    from "1.IH" [OF True b rec le] suc lt show ?thesis
      by simp
  next
    case False
    with "1.prems" have "idx = n" by simp
    with "1.prems" show ?thesis by simp
  qed
qed

lemma handlePDU_SASCII_diverges_aux:
  "handlePDU_loop response start s = Some r \<Longrightarrow>
   response = replicate 256 1 \<longrightarrow> start = SASCII \<longrightarrow> element s \<noteq> EFNCODE"
proof (induction rule: handlePDU_loop.raw_induct [rotated -1, consumes 1])
  case (1 loop response start s r)
  note IH = 1(1) and body = 1(2)
  show ?case
  proof (intro impI notI)
    assume resp: "response = replicate 256 1" and st: "start = SASCII"
      and el: "element s = EFNCODE"
    have "unat (cnt s) < 256"
      using unsigned_less [of "cnt s", where ?'a = nat] by simp
    then have "index response (unat (cnt s)) = Inr 1"
      using resp by (simp add: index_def)
    with body el st
    have "loop response start (s\<lparr>adu := (adu s)\<lparr>PDU.FnCode := [1]\<rparr>, cnt := cnt s + 1\<rparr>) = Some r"
      by (simp add: Let_def fncode_defs word_le_nat_alt)
    from IH [OF this] resp st el show False
      by simp
  qed
qed

lemma handlePDU_SASCII_diverges: "handlePDU (replicate 256 1) SASCII s = None"
proof (cases "handlePDU (replicate 256 1) SASCII s")
  case None
  then show ?thesis .
next
  case (Some r)
  then show ?thesis
    using handlePDU_SASCII_diverges_aux [of "replicate 256 1" SASCII "s\<lparr>element := EFNCODE\<rparr>" r]
    by (simp add: handlePDU_def)
qed

lemma handlePDU_MBAP_read:
  assumes "index response (unat (cnt s)) = Inr fn" and "fn \<in> {0x01, 0x02, 0x03, 0x04}"
  shows "handlePDU response SMBAP s =
     (case EDATA_loop response (ucast (Length (adu s))) 0 (Data (adu s)) (cnt s + 1) of
        Inl e \<Rightarrow> Some (Inl e)
      | Inr (data, c) \<Rightarrow>
          Some (Inr (s\<lparr>adu := (adu s)\<lparr>PDU.FnCode := [fn], Data := data\<rparr>, cnt := c,
                       section' := SDONE, element := EDATA\<rparr>)))"
proof -
  have "handlePDU response SMBAP s =
      handlePDU_loop response SMBAP
        (s\<lparr>adu := (adu s)\<lparr>PDU.FnCode := [fn]\<rparr>, cnt := cnt s + 1, element := EDATA\<rparr>)"
    unfolding handlePDU_def
    using assms by (subst handlePDU_EFNCODE) (auto simp: fncode_defs word_le_nat_alt)
  also have "\<dots> =
     (case EDATA_loop response (ucast (Length (adu s))) 0 (Data (adu s)) (cnt s + 1) of
        Inl e \<Rightarrow> Some (Inl e)
      | Inr (data, c) \<Rightarrow>
          Some (Inr (s\<lparr>adu := (adu s)\<lparr>PDU.FnCode := [fn], Data := data\<rparr>, cnt := c,
                       section' := SDONE, element := EDATA\<rparr>)))"
    by (subst handlePDU_EDATA) (simp_all split: sum.splits)
  finally show ?thesis .
qed

lemma handlePDU_MBAP_data_length:
  assumes "index response (unat (cnt s)) = Inr fn" and "fn \<in> {0x01, 0x02, 0x03, 0x04}"
    and "handlePDU response SMBAP s = Some (Inr s')"
  shows "length (Data (adu s')) = length (Data (adu s)) + unat (ucast (Length (adu s)) :: byte)"
proof (cases "EDATA_loop response (ucast (Length (adu s))) 0 (Data (adu s)) (cnt s + 1)")
  case (Inl e)
  with assms show ?thesis
    by (simp add: handlePDU_MBAP_read)
next
  case (Inr r)
  obtain data c where r: "r = (data, c)"
    by (cases r)
  with Inr assms(3) have "Data (adu s') = data"
    by (auto simp: handlePDU_MBAP_read [OF assms(1,2)])
  with EDATA_loop_length [OF Inr [unfolded r]] show ?thesis
    by simp
qed

lemma handlePDU_RTU_read:
  assumes "index response (unat (cnt s)) = Inr fn" and "fn \<in> {0x01, 0x02, 0x03, 0x04}"
    and "index response (unat (cnt s + 1)) = Inr n" and "n \<noteq> 0"
  shows "handlePDU response SRTU s =
     (case EDATA_loop response n 0 [n] (cnt s + 1 + 1) of
        Inl e \<Rightarrow> Some (Inl e)
      | Inr (data, c) \<Rightarrow>
          Some (Inr (s\<lparr>adu := (adu s)\<lparr>PDU.FnCode := [fn], Length := ucast n, Data := data\<rparr>,
                       cnt := c, section' := SDONE, element := EDATA\<rparr>)))"
proof -
  have "handlePDU response SRTU s =
      handlePDU_loop response SRTU
        (s\<lparr>adu := (adu s)\<lparr>PDU.FnCode := [fn]\<rparr>, cnt := cnt s + 1, element := ELENGTH\<rparr>)"
    unfolding handlePDU_def
    using assms(1,2) by (subst handlePDU_EFNCODE) (auto simp: fncode_defs word_le_nat_alt)
  also have "\<dots> =
      handlePDU_loop response SRTU
        (s\<lparr>adu := (adu s)\<lparr>PDU.FnCode := [fn], Length := ucast n, Data := [n]\<rparr>,
           cnt := cnt s + 1 + 1, element := EDATA\<rparr>)"
    using assms(3,4) by (subst handlePDU_ELENGTH) simp_all
  also have "\<dots> =
     (case EDATA_loop response n 0 [n] (cnt s + 1 + 1) of
        Inl e \<Rightarrow> Some (Inl e)
      | Inr (data, c) \<Rightarrow>
          Some (Inr (s\<lparr>adu := (adu s)\<lparr>PDU.FnCode := [fn], Length := ucast n, Data := data\<rparr>,
                       cnt := c, section' := SDONE, element := EDATA\<rparr>)))"
    by (subst handlePDU_EDATA) (simp_all add: ucast_ucast_byte split: sum.splits)
  finally show ?thesis .
qed

lemma handleMBAP_short:
  assumes "length response < 7" and "cnt s = 0"
  shows "handleMBAP response s = Inl RuntimePanic"
  using assms
  by (simp add: handleMBAP_def Uint16_from_def PutUint16_from_def slice_from_def
      PutUint16_def Uint16_def index_def store_def length_defs split: sum.splits)

lemma MBAP_scenario_with_header:
  "handleMBAP [0, 1, 0, 0, 0, 7, 1, 3, 4, 0, 0xA, 0, 0x14]
     \<lparr>adu = (ADU_of_PDU \<lparr>PDU.FnCode = [FERR], Data = []\<rparr>)\<lparr>Hdr := replicate 7 0\<rparr>,
      cnt = 0, section' = SMBAP, element = ENONE\<rparr>
   = Inr \<lparr>adu = (ADU_of_PDU \<lparr>PDU.FnCode = [FERR], Data = []\<rparr>)
             \<lparr>Hdr := [0, 1, 0, 0, 0, 7, 1], TransactionId := 1, Length := 7, SlaveId := 1\<rparr>,
          cnt = 7, section' = SPDU, element = ESLAVEID\<rparr>"
  by code_simp

lemma MBAP_scenario_PDU:
  "handlePDU [0, 1, 0, 0, 0, 7, 1, 3, 4, 0, 0xA, 0, 0x14] SMBAP
     \<lparr>adu = (ADU_of_PDU \<lparr>PDU.FnCode = [FERR], Data = []\<rparr>)
             \<lparr>Hdr := [0, 1, 0, 0, 0, 7, 1], TransactionId := 1, Length := 7, SlaveId := 1\<rparr>,
      cnt = 7, section' = SPDU, element = ESLAVEID\<rparr>
   = Some (Inl RuntimePanic)"
  by code_simp

lemma Decode_RTU_short:
  "length response < 4 \<Longrightarrow> Decode RTU response = Some (Inl (ResponseTooShort (length response)))"
  by (simp add: Decode_RTU Recover_SRTU_short)

lemma ErrorLRC_Err: "Err (fst (ErrorLRC d)) = []"
  by (simp add: ErrorLRC_def Bytes_def)

lemma CRC16_scenario: "CRC16 [0x11, 0x01, 0x02, 0xCD, 0x6B] = 0x406D"
  by code_simp

lemma be16_scenario: "be16 0x406D = [0x40, 0x6D]"
  by code_simp

lemma handlePDU_scenario:
  "handlePDU [0x11, 0x01, 0x02, 0xCD, 0x6B, 0x40, 0x6D] SRTU
      \<lparr>adu = (ADU_of_PDU \<lparr>PDU.FnCode = [FERR], Data = []\<rparr>)
         \<lparr>CRC := 0x406D, Err := [0x40, 0x6D], SlaveId := 0x11, Hdr := [0x11]\<rparr>,
       cnt = 1, section' = SPDU, element = ESLAVEID\<rparr>
   = Some (Inr \<lparr>adu = (ADU_of_PDU \<lparr>PDU.FnCode = [0x01], Data = [0x02, 0xCD, 0x6B]\<rparr>)
         \<lparr>CRC := 0x406D, Err := [0x40, 0x6D], SlaveId := 0x11, Hdr := [0x11], Length := 2\<rparr>,
       cnt = 5, section' = SDONE, element = EDATA\<rparr>)"
  by code_simp

lemma Exception_table_0: "Exception_table 0 = None"
  by (simp add: Exception_table_def excode_defs)

lemma handlePDU_exception:
  assumes "index response (unat (cnt s)) = Inr fn" and "0x80 \<le> fn"
    and "index response (unat (cnt s + 1)) = Inr ex"
  shows "handlePDU response start s =
     (if ex = 7 \<or> ex = 9 \<or> 12 \<le> ex then Some (Inl (UnsupportedExCode ex))
      else Some (Inr (s\<lparr>adu := (adu s)\<lparr>PDU.FnCode := [fn], ExceptionCode := ex, Data := [ex],
                 Exception := (case Exception_table ex of Some txt \<Rightarrow> txt
                               | None \<Rightarrow> Exception (adu s))\<rparr>,
               cnt := cnt s + 1 + 1, section' := SDONE, element := EEXCODE\<rparr>)))"
proof -
  have "handlePDU response start s =
      handlePDU_loop response start
        (s\<lparr>adu := (adu s)\<lparr>PDU.FnCode := [fn]\<rparr>, cnt := cnt s + 1, element := EEXCODE\<rparr>)"
    unfolding handlePDU_def
    using assms(1,2) by (subst handlePDU_EFNCODE) (simp_all add: fncode_defs)
  also have "\<dots> =
     (if ex \<notin> {0, 1, 2, 3, 4, 5, 6, 8, 10, 11} then Some (Inl (UnsupportedExCode ex))
      else Some (Inr (s\<lparr>adu := (adu s)\<lparr>PDU.FnCode := [fn], ExceptionCode := ex, Data := [ex],
                 Exception := (case Exception_table ex of Some txt \<Rightarrow> txt
                               | None \<Rightarrow> Exception (adu s))\<rparr>,
               cnt := cnt s + 1 + 1, section' := SDONE, element := EEXCODE\<rparr>)))"
    using assms(3) by (subst handlePDU_EEXCODE) (simp_all cong: if_cong option.case_cong)
  finally show ?thesis
    by (simp only: excode_supported_iff not_not)
qed

lemma be16_Uint16: "word_of_nat (256 * unat (be16 v ! 0) + unat (be16 v ! 1)) = v"
  using be16_value [of v] by (simp add: ac_simps del: of_nat_add of_nat_mult)

lemma CRC16_exception_zero: "CRC16 [0x11, 0x83, 0x00] = 0xF540"
  by code_simp

lemma be16_exception_zero: "be16 0xF540 = [0xF5, 0x40]"
  by code_simp

section \<open>The address translator\<close>

text \<open>
  C3. For every legal absolute register number (one of the ranges 0-65535, 100000-165535,
  300000-365535, 400000-465535), \<open>Relative\<close> returns a function code and a relative
  address without error, and \<open>Absolute\<close> on that pair returns the original absolute
  number without error.
\<close>

theorem Relative_Absolute_roundtrip:
  "legal_absolute a \<Longrightarrow>
     (case Relative a of
        (fncode, relative, err) \<Rightarrow> err = None \<and> Absolute fncode relative = (a, None))"
  by (auto simp: legal_absolute_def Relative_def Absolute_def fncode_defs)

theorem Relative_Absolute_roundtrip_witness:
  "legal_absolute 400010 \<and>
     (case Relative 400010 of
        (fncode, relative, err) \<Rightarrow> err = None \<and> Absolute fncode relative = (400010, None))"
  using Relative_Absolute_roundtrip [of 400010] by (simp add: legal_absolute_def)

text \<open>
  C4. \<open>Relative\<close> follows the range table: each of the four ranges gives its function
  code (0x01, 0x02, 0x04, 0x03) and the absolute number less the base of the range, and
  every absolute number outside the four ranges gives the address error. In particular
  400010 gives (0x03, 10), 100000 gives (0x02, 0), and 70000 gives the error.
\<close>

theorem Relative_range_table:
  "(a \<le> 65535 \<longrightarrow> Relative a = (0x01, a, None))
   \<and> (100000 \<le> a \<and> a \<le> 165535 \<longrightarrow> Relative a = (0x02, a - 100000, None))
   \<and> (300000 \<le> a \<and> a \<le> 365535 \<longrightarrow> Relative a = (0x04, a - 300000, None))
   \<and> (400000 \<le> a \<and> a \<le> 465535 \<longrightarrow> Relative a = (0x03, a - 400000, None))
   \<and> (\<not> legal_absolute a \<longrightarrow> Relative a = (FERR, a, Some (AddressToRelative a)))
   \<and> Relative 400010 = (0x03, 10, None)
   \<and> Relative 100000 = (0x02, 0, None)
   \<and> Relative 70000 = (FERR, 70000, Some (AddressToRelative 70000))"
  by (auto simp: legal_absolute_def Relative_def fncode_defs word_le_nat_alt)

theorem Relative_range_table_witness:
  "Relative 5 = (0x01, 5, None)
   \<and> Relative 100005 = (0x02, 5, None)
   \<and> Relative 300005 = (0x04, 5, None)
   \<and> Relative 465535 = (0x03, 65535, None)
   \<and> \<not> legal_absolute 200000
   \<and> Relative 200000 = (FERR, 200000, Some (AddressToRelative 200000))"
  using Relative_range_table [of 5] Relative_range_table [of 100005]
    Relative_range_table [of 300005] Relative_range_table [of 465535]
    Relative_range_table [of 200000]
  by (simp add: legal_absolute_def)

section \<open>The request encoder\<close>

text \<open>
  C6. For every request, \<open>Request.Encode\<close> gives a PDU with the request's function code
  and exactly four data bytes, the address big-endian then the quantity big-endian, when
  the function code is 0x01, 0x02, 0x03 or 0x04; a PDU with empty data when it is 0x11; and
  the unsupported-function error for every other function code.
\<close>

theorem Encode_Request_cases:
  "(Request.FnCode r \<in> {0x01, 0x02, 0x03, 0x04} \<longrightarrow>
      (\<exists>d. Encode_Request r = (\<lparr>PDU.FnCode = [Request.FnCode r], Data = d\<rparr>, None)
         \<and> length d = 4
         \<and> unat (d ! 0) * 256 + unat (d ! 1) = unat (Address r)
         \<and> unat (d ! 2) * 256 + unat (d ! 3) = unat (Quantity r)))
   \<and> (Request.FnCode r = 0x11 \<longrightarrow>
      Encode_Request r = (\<lparr>PDU.FnCode = [0x11], Data = []\<rparr>, None))
   \<and> (Request.FnCode r \<notin> {0x01, 0x02, 0x03, 0x04, 0x11} \<longrightarrow>
      (\<exists>p. Encode_Request r = (p, Some (UnsupportedFunction (Request.FnCode r)))))"
proof -
  have len: "length (be16 v) = 2" for v
    by (simp add: be16_def)
  have "unat ((be16 (Address r) @ be16 (Quantity r)) ! 0) * 256
      + unat ((be16 (Address r) @ be16 (Quantity r)) ! 1) = unat (Address r)"
    using be16_value [of "Address r"] by (simp add: nth_append len)
  moreover have "unat ((be16 (Address r) @ be16 (Quantity r)) ! 2) * 256
      + unat ((be16 (Address r) @ be16 (Quantity r)) ! 3) = unat (Quantity r)"
    using be16_value [of "Quantity r"] by (simp add: nth_append len)
  ultimately show ?thesis
    by (auto simp: Encode_Request_def NewPDU_def fncode_defs len)
qed

theorem Encode_Request_cases_witness:
  "(\<exists>d. Encode_Request \<lparr>Request.FnCode = 0x03, Address = 0x0102, Quantity = 2, Count = 0,
            Values = [], SubFn = 0, ANDMask = 0, ORMask = 0\<rparr>
          = (\<lparr>PDU.FnCode = [0x03], Data = d\<rparr>, None)
       \<and> length d = 4
       \<and> unat (d ! 0) * 256 + unat (d ! 1) = 258
       \<and> unat (d ! 2) * 256 + unat (d ! 3) = 2)
   \<and> Encode_Request \<lparr>Request.FnCode = 0x11, Address = 0, Quantity = 0, Count = 0,
         Values = [], SubFn = 0, ANDMask = 0, ORMask = 0\<rparr>
       = (\<lparr>PDU.FnCode = [0x11], Data = []\<rparr>, None)
   \<and> (\<exists>p. Encode_Request \<lparr>Request.FnCode = 0x05, Address = 0, Quantity = 0, Count = 0,
            Values = [], SubFn = 0, ANDMask = 0, ORMask = 0\<rparr>
          = (p, Some (UnsupportedFunction 0x05)))"
  using
    Encode_Request_cases [of "\<lparr>Request.FnCode = 0x03, Address = 0x0102, Quantity = 2,
      Count = 0, Values = [], SubFn = 0, ANDMask = 0, ORMask = 0\<rparr>"]
    Encode_Request_cases [of "\<lparr>Request.FnCode = 0x11, Address = 0, Quantity = 0,
      Count = 0, Values = [], SubFn = 0, ANDMask = 0, ORMask = 0\<rparr>"]
    Encode_Request_cases [of "\<lparr>Request.FnCode = 0x05, Address = 0, Quantity = 0,
      Count = 0, Values = [], SubFn = 0, ANDMask = 0, ORMask = 0\<rparr>"]
  by simp

section \<open>Decoding MBAP frames\<close>

text \<open>
  C1. The claim: for every MBAP frame with length field L, decode reads exactly L - 2 bytes
  after the function code as the PDU data, and the response
  00 01 00 00 00 07 01 03 04 00 0A 00 14 decodes to function code 0x03 with data
  04 00 0A 00 14. What the source does on that response: \<open>Recover\<close> allocates the frame
  with \<open>NewADU(nil)\<close>, whose \<open>Hdr\<close> is \<open>nil\<close>, and the first element of
  \<open>handleMBAP\<close> writes the transaction id into \<open>adu.Hdr[0:]\<close>: a run-time panic
  (\<open>handleMBAP_nil_Hdr\<close>, and \<open>Recover_SMBAP\<close> for every response). With a header of
  seven bytes in place, \<open>MBAP_scenario_with_header\<close> and \<open>MBAP_scenario_PDU\<close> follow
  the same response further: the data loop runs \<open>byte(adu.Length)\<close> = 7 times, not
  L - 2 = 5 times (\<open>handlePDU_MBAP_data_length\<close>), and reads past the end of the buffer.
\<close>

theorem Decode_ModbusTCP_scenario_panics:
  "Decode ModbusTCP
     [0x00, 0x01, 0x00, 0x00, 0x00, 0x07, 0x01, 0x03, 0x04, 0x00, 0x0A, 0x00, 0x14]
   = Some (Inl RuntimePanic)"
  by (simp add: Decode_ModbusTCP Recover_SMBAP)

text \<open>
  C2. The claim: a buffer shorter than the minimum frame of its variant gives a short-frame
  error, and no byte outside the buffer is read. \<open>handleCRC\<close>, \<open>handleRTU\<close> and
  \<open>handleASCII\<close> check the length; \<open>handleMBAP\<close> does not. On the empty buffer the
  MBAP decoder panics, and it does so with a seven-byte header in place as well: the first
  element reads \<open>response[0:]\<close> as a 16-bit value (\<open>handleMBAP_short\<close> for every
  buffer of fewer than seven bytes). The RTU decoder does return its error for every buffer
  of fewer than four bytes (\<open>Decode_RTU_short\<close>).
\<close>

theorem Decode_ModbusTCP_short_buffer_panics:
  "Decode ModbusTCP [] = Some (Inl RuntimePanic)
   \<and> handleMBAP []
        \<lparr>adu = (ADU_of_PDU \<lparr>PDU.FnCode = [FERR], Data = []\<rparr>)\<lparr>Hdr := replicate 7 0\<rparr>,
         cnt = 0, section' = SMBAP, element = ENONE\<rparr> = Inl RuntimePanic"
  by (simp add: Decode_ModbusTCP Recover_SMBAP handleMBAP_short)

section \<open>The LRC of the frame model\<close>

text \<open>
  C7. The claim: \<open>ErrorLRC\<close> clears \<open>Err\<close>, computes the LRC-8 of the bytes from the
  slave id through the data, and leaves that one byte in \<open>Err\<close>. On the binary frame
  11 03 00 00 00 01, whose LRC-8 is EB, the source returns the frame with \<open>Err\<close>
  cleared and nothing written (\<open>ErrorLRC_Err\<close>: so it is for every frame).
\<close>

theorem ErrorLRC_writes_no_LRC:
  "ErrorLRC ((ADU_of_PDU \<lparr>PDU.FnCode = [0x03], Data = [0x00, 0x00, 0x00, 0x01]\<rparr>)
              \<lparr>Hdr := [0x11], SlaveId := 0x11\<rparr>)
     = ((ADU_of_PDU \<lparr>PDU.FnCode = [0x03], Data = [0x00, 0x00, 0x00, 0x01]\<rparr>)
              \<lparr>Hdr := [0x11], SlaveId := 0x11, Err := []\<rparr>, None)
   \<and> LRC8 [0x11, 0x03, 0x00, 0x00, 0x00, 0x01] = 0xEB"
  by (simp add: ErrorLRC_def Bytes_def LRC8_def ADU_of_PDU_def)

section \<open>Termination of the decoder\<close>

text \<open>
  C9. The claim: for every buffer and every start section \<open>Recover\<close> ends after finitely
  many steps and returns a decoded ADU or an error. It does end (\<open>Recover_terminates\<close>),
  but not always with an ADU or an error: on the RTU frame 11 01 05 56 E0, whose CRC is
  right and whose byte count 5 exceeds the bytes that follow, the data loop of
  \<open>handlePDU\<close> (\<open>handlePDU_RTU_read\<close>) indexes the response past its end, a
  run-time panic; and on the MBAP response 00 05 00 00 00 03 01 83 02, as on every MBAP
  response, \<open>handleMBAP\<close> panics. (The loop of
  \<open>handlePDU\<close> alone need not end for start section \<open>SASCII\<close>,
  \<open>handlePDU_SASCII_diverges\<close>; \<open>Recover\<close> never gets there, because
  \<open>handleSOF\<close> panics first, \<open>Recover_SASCII\<close>.)
\<close>

theorem Recover_RTU_byte_count_panics:
  "Recover [0x11, 0x01, 0x05, 0x56, 0xE0] SRTU = Some (Inl RuntimePanic)
   \<and> CRC16 [0x11, 0x01, 0x05] = 0x56E0
   \<and> Recover [0x00, 0x05, 0x00, 0x00, 0x00, 0x03, 0x01, 0x83, 0x02] SMBAP
       = Some (Inl RuntimePanic)"
  by code_simp

section \<open>The CRC check of RTU frames\<close>

text \<open>
  C5. For every RTU frame (at least \<open>LSID + LFNC + LCRC\<close> = 4 bytes): when its last two
  bytes, read big-endian, differ from the CRC-16 of all bytes before them, \<open>Decode\<close>
  returns the CRC-mismatch error and no ADU; when they are equal, the result of
  \<open>Decode\<close> is the result of parsing the PDU from the second byte on, in a frame that
  holds the first byte as slave id and header and the two CRC bytes as error check.
\<close>

theorem Decode_RTU_checksum:
  assumes "4 \<le> length response"
  shows
    "(let n = length response - 2;
          crcResponse = (word_of_nat (256 * unat (response ! n) + unat (response ! (n + 1))) :: uint16)
      in (crcResponse \<noteq> CRC16 (take n response) \<longrightarrow>
            Decode RTU response = Some (Inl (CRCMismatch crcResponse)))
       \<and> (crcResponse = CRC16 (take n response) \<longrightarrow>
            Decode RTU response =
              (case handlePDU response SRTU
                      \<lparr>adu = (ADU_of_PDU \<lparr>PDU.FnCode = [FERR], Data = []\<rparr>)
                         \<lparr>CRC := crcResponse, Err := be16 crcResponse,
                          SlaveId := response ! 0, Hdr := [response ! 0]\<rparr>,
                       cnt = 1, section' = SPDU, element = ESLAVEID\<rparr> of
                 None \<Rightarrow> None
               | Some (Inl e) \<Rightarrow> Some (Inl e)
               | Some (Inr s') \<Rightarrow> Some (Inr (Some (adu s'))))))"
  by (simp add: Decode_RTU Recover_SRTU_frame [OF assms] Let_def be16_def)

theorem Decode_RTU_checksum_witness:
  "4 \<le> length [0x11, 0x01, 0x02, 0xCD, 0x6B, 0x40, 0x6D :: byte]
   \<and> Decode RTU [0x11, 0x01, 0x02, 0xCD, 0x6B, 0x40, 0x6C] = Some (Inl (CRCMismatch 0x406C))
   \<and> Decode RTU [0x11, 0x01, 0x02, 0xCD, 0x6B, 0x40, 0x6D]
       = Some (Inr (Some ((ADU_of_PDU \<lparr>PDU.FnCode = [0x01], Data = [0x02, 0xCD, 0x6B]\<rparr>)
            \<lparr>CRC := 0x406D, Err := [0x40, 0x6D], SlaveId := 0x11, Hdr := [0x11],
             Length := 2\<rparr>)))"
  using Decode_RTU_checksum [of "[0x11, 0x01, 0x02, 0xCD, 0x6B, 0x40, 0x6C]"]
    Decode_RTU_checksum [of "[0x11, 0x01, 0x02, 0xCD, 0x6B, 0x40, 0x6D]"]
  by (simp add: CRC16_scenario handlePDU_scenario be16_scenario)

section \<open>Timeouts in the client engine\<close>

text \<open>
  C8. When \<open>Send\<close> has succeeded and \<open>Listen\<close> fails: if the text of the error
  contains "timeout" (\<open>Contains_iff\<close>: as a substring), \<open>do\<close> returns, with no
  error, an ADU whose function code is the one byte 0x80, whose data is empty and whose
  \<open>Timeout\<close> is set; for every other failure of \<open>Listen\<close> it returns an error and
  no ADU.
\<close>

theorem Client_do_listen_failure:
  assumes "Send (Transport c) request = None" and "Listen (Transport c) = Some msg"
  shows
    "(Contains msg ''timeout'' \<longrightarrow>
        (\<exists>a. Client_do c request = Some (Inr (Some a))
           \<and> PDU.FnCode a = [0x80] \<and> Data a = [] \<and> Timeout a))
     \<and> (\<not> Contains msg ''timeout'' \<longrightarrow> Client_do c request = Some (Inl (ListenFailed msg)))"
  using assms by (simp add: Client_do_def NewPDU_def NewADU_def ADU_of_PDU_def fncode_defs)

theorem Client_do_listen_failure_witness:
  "Contains ''read tcp 10.0.0.7:502: i/o timeout'' ''timeout''
   \<and> (\<exists>a. Client_do \<lparr>Protocol = ModbusTCP,
            Transport = \<lparr>Send = (\<lambda>a. None),
                          Listen = Some ''read tcp 10.0.0.7:502: i/o timeout'',
                          Buffer = []\<rparr>\<rparr>
          (ADU_of_PDU \<lparr>PDU.FnCode = [0x03], Data = [0, 0, 0, 2]\<rparr>)
         = Some (Inr (Some a))
       \<and> PDU.FnCode a = [0x80] \<and> Data a = [] \<and> Timeout a)
   \<and> \<not> Contains ''connection reset by peer'' ''timeout''
   \<and> Client_do \<lparr>Protocol = ModbusTCP,
          Transport = \<lparr>Send = (\<lambda>a. None), Listen = Some ''connection reset by peer'',
                        Buffer = []\<rparr>\<rparr>
        (ADU_of_PDU \<lparr>PDU.FnCode = [0x03], Data = [0, 0, 0, 2]\<rparr>)
       = Some (Inl (ListenFailed ''connection reset by peer''))"
  using
    Client_do_listen_failure [of "\<lparr>Protocol = ModbusTCP,
          Transport = \<lparr>Send = (\<lambda>a. None), Listen = Some ''read tcp 10.0.0.7:502: i/o timeout'',
                        Buffer = []\<rparr>\<rparr>"
      "ADU_of_PDU \<lparr>PDU.FnCode = [0x03], Data = [0, 0, 0, 2]\<rparr>"
      "''read tcp 10.0.0.7:502: i/o timeout''"]
    Client_do_listen_failure [of "\<lparr>Protocol = ModbusTCP,
          Transport = \<lparr>Send = (\<lambda>a. None), Listen = Some ''connection reset by peer'',
                        Buffer = []\<rparr>\<rparr>"
      "ADU_of_PDU \<lparr>PDU.FnCode = [0x03], Data = [0, 0, 0, 2]\<rparr>"
      "''connection reset by peer''"]
  by simp

section \<open>Exception responses\<close>

text \<open>
  What \<open>handlePDU\<close> does with an exception response. Let the function code have bit 7
  set. In the PDU section of every variant, with the function code at the cursor and the
  exception code after it, only the exception codes 7, 9 and 12 and above are rejected as
  unsupported; every other code, 0 among them, ends the section with that code in the ADU,
  and code 0, which the table \<open>Exception\<close> does not hold, leaves the exception text as
  it was. \<open>Decode_RTU_exception\<close> has the same for \<open>Decode\<close> on every RTU frame with
  a matching CRC.
\<close>

lemma handlePDU_exception_codes:
  assumes "bit fn 7"
  shows
    "(index response (unat (cnt s)) = Inr fn \<and> index response (unat (cnt s + 1)) = Inr ex \<longrightarrow>
        (if ex = 7 \<or> ex = 9 \<or> 12 \<le> ex
         then handlePDU response start s = Some (Inl (UnsupportedExCode ex))
         else \<exists>s'. handlePDU response start s = Some (Inr s') \<and> section' s' = SDONE
                \<and> PDU.FnCode (adu s') = [fn] \<and> ExceptionCode (adu s') = ex
                \<and> (ex = 0 \<longrightarrow> Exception (adu s') = Exception (adu s))))
     \<and> (if ex = 7 \<or> ex = 9 \<or> 12 \<le> ex
        then Decode RTU ([sid, fn, ex] @ be16 (CRC16 [sid, fn, ex]))
               = Some (Inl (UnsupportedExCode ex))
        else \<exists>a. Decode RTU ([sid, fn, ex] @ be16 (CRC16 [sid, fn, ex])) = Some (Inr (Some a))
               \<and> SlaveId a = sid \<and> PDU.FnCode a = [fn] \<and> ExceptionCode a = ex
               \<and> (ex = 0 \<longrightarrow> Exception a = ''''))"
proof -
  from assms have fn: "0x80 \<le> fn"
    by (simp add: bit7_iff)
  let ?c = "CRC16 [sid, fn, ex]"
  let ?frame = "[sid, fn, ex, ucast (drop_bit 8 ?c), ucast ?c]"
  have frame: "[sid, fn, ex] @ be16 ?c = ?frame"
    by (simp add: be16_def)
  have len: "4 \<le> length ?frame"
    by simp
  have crc: "(word_of_nat (256 * unat (ucast (drop_bit 8 ?c) :: byte) + unat (ucast ?c :: byte))
      :: uint16) = ?c"
    using be16_Uint16 [of ?c] by (simp add: be16_def)
  have dec: "Decode RTU ?frame =
      (case handlePDU ?frame SRTU
              \<lparr>adu = (ADU_of_PDU \<lparr>PDU.FnCode = [FERR], Data = []\<rparr>)
                 \<lparr>CRC := ?c, Err := be16 ?c, SlaveId := sid, Hdr := [sid]\<rparr>,
               cnt = 1, section' = SPDU, element = ESLAVEID\<rparr> of
         None \<Rightarrow> None
       | Some (Inl e) \<Rightarrow> Some (Inl e)
       | Some (Inr s') \<Rightarrow> Some (Inr (Some (adu s'))))"
    using crc by (simp add: Decode_RTU Recover_SRTU_frame [OF len] Let_def be16_def)
  have pdu: "handlePDU ?frame SRTU
              \<lparr>adu = (ADU_of_PDU \<lparr>PDU.FnCode = [FERR], Data = []\<rparr>)
                 \<lparr>CRC := ?c, Err := be16 ?c, SlaveId := sid, Hdr := [sid]\<rparr>,
               cnt = 1, section' = SPDU, element = ESLAVEID\<rparr> =
     (if ex = 7 \<or> ex = 9 \<or> 12 \<le> ex then Some (Inl (UnsupportedExCode ex))
      else Some (Inr (\<lparr>adu = (ADU_of_PDU \<lparr>PDU.FnCode = [FERR], Data = []\<rparr>)
                 \<lparr>CRC := ?c, Err := be16 ?c, SlaveId := sid, Hdr := [sid],
                  PDU.FnCode := [fn], ExceptionCode := ex, Data := [ex],
                  Exception := (case Exception_table ex of Some txt \<Rightarrow> txt | None \<Rightarrow> [])\<rparr>,
               cnt = 3, section' = SDONE, element = EEXCODE\<rparr>)))"
    by (subst handlePDU_exception [where fn = fn and ex = ex])
      (simp_all add: fn index_def ADU_of_PDU_def cong: if_cong option.case_cong)
  have rtu: "if ex = 7 \<or> ex = 9 \<or> 12 \<le> ex
        then Decode RTU ([sid, fn, ex] @ be16 ?c) = Some (Inl (UnsupportedExCode ex))
        else \<exists>a. Decode RTU ([sid, fn, ex] @ be16 ?c) = Some (Inr (Some a))
               \<and> SlaveId a = sid \<and> PDU.FnCode a = [fn] \<and> ExceptionCode a = ex
               \<and> (ex = 0 \<longrightarrow> Exception a = '''')"
    unfolding frame by (simp add: dec pdu Exception_table_0)
  have gen: "index response (unat (cnt s)) = Inr fn \<and> index response (unat (cnt s + 1)) = Inr ex \<longrightarrow>
        (if ex = 7 \<or> ex = 9 \<or> 12 \<le> ex
         then handlePDU response start s = Some (Inl (UnsupportedExCode ex))
         else \<exists>s'. handlePDU response start s = Some (Inr s') \<and> section' s' = SDONE
                \<and> PDU.FnCode (adu s') = [fn] \<and> ExceptionCode (adu s') = ex
                \<and> (ex = 0 \<longrightarrow> Exception (adu s') = Exception (adu s)))"
    by (simp add: handlePDU_exception [OF _ fn] Exception_table_0)
  from gen rtu show ?thesis
    by (rule conjI)
qed

lemma handlePDU_exception_codes_example:
  "bit (0x83 :: byte) 7
   \<and> (\<exists>s'. handlePDU [0x83, 0x00] SMBAP
               \<lparr>adu = ADU_of_PDU \<lparr>PDU.FnCode = [FERR], Data = []\<rparr>, cnt = 0,
                section' = SPDU, element = ENONE\<rparr> = Some (Inr s')
          \<and> section' s' = SDONE \<and> PDU.FnCode (adu s') = [0x83]
          \<and> ExceptionCode (adu s') = 0 \<and> Exception (adu s') = [])
   \<and> (\<exists>a. Decode RTU [0x11, 0x83, 0x00, 0xF5, 0x40] = Some (Inr (Some a))
          \<and> SlaveId a = 0x11 \<and> PDU.FnCode a = [0x83] \<and> ExceptionCode a = 0
          \<and> Exception a = [])
   \<and> handlePDU [0x83, 0x07] SMBAP
         \<lparr>adu = ADU_of_PDU \<lparr>PDU.FnCode = [FERR], Data = []\<rparr>, cnt = 0,
          section' = SPDU, element = ENONE\<rparr> = Some (Inl (UnsupportedExCode 0x07))
   \<and> Decode RTU ([0x11, 0x83, 0x07] @ be16 (CRC16 [0x11, 0x83, 0x07]))
       = Some (Inl (UnsupportedExCode 0x07))"
proof -
  have b: "bit (0x83 :: byte) 7"
    by (simp add: bit7_iff word_le_nat_alt)
  show ?thesis
    using b
      handlePDU_exception_codes [OF b, where response = "[0x83, 0x00]" and ex = "0x00"
        and sid = "0x11" and start = SMBAP
        and s = "\<lparr>adu = ADU_of_PDU \<lparr>PDU.FnCode = [FERR], Data = []\<rparr>, cnt = 0,
                section' = SPDU, element = ENONE\<rparr>"]
      handlePDU_exception_codes [OF b, where response = "[0x83, 0x07]" and ex = "0x07"
        and sid = "0x11" and start = SMBAP
        and s = "\<lparr>adu = ADU_of_PDU \<lparr>PDU.FnCode = [FERR], Data = []\<rparr>, cnt = 0,
                section' = SPDU, element = ENONE\<rparr>"]
    by (simp add: index_def CRC16_exception_zero be16_exception_zero ADU_of_PDU_def)
qed

lemma Decode_RTU_exception:
  assumes len: "5 \<le> length response"
    and crc: "(word_of_nat (256 * unat (response ! (length response - 2))
                 + unat (response ! (length response - 1))) :: uint16)
              = CRC16 (take (length response - 2) response)"
    and fn: "bit (response ! 1) 7"
  shows "if response ! 2 = 7 \<or> response ! 2 = 9 \<or> 12 \<le> response ! 2
     then Decode RTU response = Some (Inl (UnsupportedExCode (response ! 2)))
     else \<exists>a. Decode RTU response = Some (Inr (Some a))
            \<and> SlaveId a = response ! 0 \<and> PDU.FnCode a = [response ! 1]
            \<and> Data a = [response ! 2] \<and> ExceptionCode a = response ! 2
            \<and> (response ! 2 = 0 \<longrightarrow> Exception a = [])"
proof -
  from len have len4: "4 \<le> length response"
    by simp
  from len have n1: "length response - 2 + 1 = length response - 1"
    by simp
  let ?c = "CRC16 (take (length response - 2) response)"
  have crc': "(word_of_nat (256 * unat (response ! (length response - 2))
                 + unat (response ! (length response - 2 + 1))) :: uint16) = ?c"
    using crc by (simp only: n1)
  let ?s = "\<lparr>adu = (ADU_of_PDU \<lparr>PDU.FnCode = [FERR], Data = []\<rparr>)
                 \<lparr>CRC := ?c, Err := [ucast (drop_bit 8 ?c), ucast ?c],
                  SlaveId := response ! 0, Hdr := [response ! 0]\<rparr>,
               cnt = 1, section' = SPDU, element = ESLAVEID\<rparr>"
  have dec: "Decode RTU response =
      (case handlePDU response SRTU ?s of
         None \<Rightarrow> None
       | Some (Inl e) \<Rightarrow> Some (Inl e)
       | Some (Inr s') \<Rightarrow> Some (Inr (Some (adu s'))))"
    using crc' by (simp add: Decode_RTU Recover_SRTU_frame [OF len4] Let_def
        del: of_nat_add of_nat_mult)
  have i1: "index response (unat (cnt ?s)) = Inr (response ! 1)"
    using len by (simp add: index_def)
  have i2: "index response (unat (cnt ?s + 1)) = Inr (response ! 2)"
    using len by (simp add: index_def)
  from fn have ge: "0x80 \<le> response ! 1"
    by (simp add: bit7_iff)
  note pdu = handlePDU_exception [OF i1 ge i2]
  show ?thesis
    unfolding dec pdu by (simp add: Exception_table_0 ADU_of_PDU_def)
qed

text \<open>
  C10. The claim: every structurally valid frame whose function code has bit 7 set and
  whose exception code is 0 decodes to an ADU with exception code 0 and empty exception
  text, and only the exception codes 7, 9 and 12 and above are rejected. What the source
  does on the MBAP frame 00 05 00 00 00 03 01 83 00, whose length field 3 counts the slave
  id, the function code 0x83 and the exception code 0: \<open>handleMBAP\<close> writes into the
  \<open>nil\<close> header and panics (\<open>handleMBAP_nil_Hdr\<close>), so the PDU section, which would
  accept the code (\<open>handlePDU_exception_codes\<close>), is never reached. RTU frames of the
  same kind do decode as the claim says (\<open>Decode_RTU_exception\<close>).
\<close>

theorem Decode_ModbusTCP_exception_zero_panics:
  "Decode ModbusTCP [0x00, 0x05, 0x00, 0x00, 0x00, 0x03, 0x01, 0x83, 0x00]
   = Some (Inl RuntimePanic)"
  by (simp add: Decode_ModbusTCP Recover_SMBAP)

end
